theory Spec2Isabelle
  imports Main
begin

section \<open>The matcher\<close>

text \<open>
  The chatbot imports its matcher (\<^verbatim>\<open>from match import match\<close>); the module
  \<^verbatim>\<open>match.py\<close> is not among the sources. A pattern and a source are lists of words,
  as in \<^verbatim>\<open>"when was % born".split()\<close>; the word \<^verbatim>\<open>%\<close> is the wildcard marker.
  The result is \<open>Some\<close> of the captured words, or \<open>None\<close> (Python's \<^verbatim>\<open>None\<close>, the
  specification's NO_MATCH).
\<close>

definition wildcard :: string where
  "wildcard = ''%''"

text \<open>
  The search over the lengths a wildcard may consume: the candidates are tried in the
  order of the list, and the first one on which \<open>f\<close> succeeds is the result.
\<close>

primrec first_success :: "(nat \<Rightarrow> 'a option) \<Rightarrow> nat list \<Rightarrow> 'a option" where
  "first_success f [] = None"
| "first_success f (L # Ls) =
     (case f L of Some r \<Rightarrow> Some r | None \<Rightarrow> first_success f Ls)"

text \<open>
  Modelled from the spec: the function \<^verbatim>\<open>match\<close> of the missing module
  \<^verbatim>\<open>match.py\<close>, following section 4.1 of the specification step by step:
  \<^enum> pattern and source both empty: success with an empty capture;
  \<^enum> exactly one of them empty: no match;
  \<^enum> a literal first token must equal the first source word, and the rest is matched
    against the rest, the literal capturing nothing;
  \<^enum> a wildcard first token consumes \<open>L\<close> words, for \<open>L\<close> from 1 up to the length of the
    remaining source, shortest first; the first \<open>L\<close> for which the rest of the pattern
    matches the source after those \<open>L\<close> words wins, and the capture is the \<open>L\<close> words
    followed by the capture of the rest.
\<close>

fun match :: "string list \<Rightarrow> string list \<Rightarrow> string list option" where
  "match [] [] = Some []"
| "match [] (s # src) = None"
| "match (p # pat) [] = None"
| "match (p # pat) (s # src) =
     (if p \<noteq> wildcard then (if p = s then match pat src else None)
      else first_success
        (\<lambda>L. case match pat (drop L (s # src)) of
               None \<Rightarrow> None
             | Some c \<Rightarrow> Some (take L (s # src) @ c))
        [1 ..< Suc (length (s # src))])"

section \<open>Exceptions and the outside world\<close>

text \<open>
  A Python exception that leaves a function is a value \<open>Inl e\<close> of the result; a normal
  return is \<open>Inr v\<close>. \<open>LibraryError\<close> stands for whatever the \<^verbatim>\<open>wikipedia\<close> package
  raises by itself (no such page, a disambiguation page, no network).
\<close>

datatype py_exception =
    KeyboardInterrupt
  | EOFError
  | IndexError
  | LookupError string
  | AttributeError string
  | LibraryError string

definition propagate :: "'e + 'a \<Rightarrow> ('a \<Rightarrow> 'e + 'b) \<Rightarrow> 'e + 'b" where
  "propagate r k = (case r of Inl e \<Rightarrow> Inl e | Inr v \<Rightarrow> k v)"

text \<open>
  The regular expressions of the six extractors. Each has exactly one capturing group,
  which takes part in every match; the regular-expression engine is part of the outside
  world, so a pattern is named here and not interpreted:
  \<^item> \<open>Polar_radius_re\<close>: \<^verbatim>\<open>(?:Polar radius.*?)(?: ?[\d]+ )?(?P<radius>[\d,.]+)(?:.*?)km\<close>
  \<^item> \<open>Birth_re\<close>: \<^verbatim>\<open>(?:Born\D*)(?P<birth>\d{4}-\d{2}-\d{2})\<close>
  \<^item> \<open>Motto_re\<close>: \<^verbatim>\<open>English(.*?)(?=Type)\<close>
  \<^item> \<open>Genre_re\<close>: \<^verbatim>\<open>Genres\n(.*?)(?=\n)\<close>
  \<^item> \<open>Movement_re\<close>: the pattern of \<^verbatim>\<open>get_painter_movement\<close>, group \<^verbatim>\<open>movement\<close>
  \<^item> \<open>Notable_work_re\<close>: the pattern of \<^verbatim>\<open>get_notable_work\<close>, group 1
\<close>

datatype regex =
  Polar_radius_re | Birth_re | Motto_re | Genre_re | Movement_re | Notable_work_re

datatype re_flags = No_flags | Dotall_Ignorecase

text \<open>
  What the program reads from outside itself:
  \<^item> \<open>wikipedia_search\<close>: \<^verbatim>\<open>wikipedia.search(title)\<close>, the titles found;
  \<^item> \<open>wikipedia_page_html\<close>: \<^verbatim>\<open>WikipediaPage(title).html()\<close>;
  \<^item> \<open>infobox_texts\<close>: the \<^verbatim>\<open>.text\<close> of each element of
    \<^verbatim>\<open>BeautifulSoup(html, "html.parser").find_all(class_="infobox")\<close>;
  \<^item> \<open>re_search\<close>: a search of the text for the pattern under the flags, giving the
    pattern's capturing group when the pattern is found.
\<close>

record world =
  wikipedia_search :: "string \<Rightarrow> py_exception + string list"
  wikipedia_page_html :: "string \<Rightarrow> py_exception + string"
  infobox_texts :: "string \<Rightarrow> string list"
  re_search :: "re_flags \<Rightarrow> regex \<Rightarrow> string \<Rightarrow> string option"

section \<open>Strings\<close>

text \<open>
  Text is a list of 8-bit characters. The functions below are Python's on ASCII text;
  \<^verbatim>\<open>str.lower\<close> and \<^verbatim>\<open>str.isspace\<close> of a character outside ASCII are not modelled.
\<close>

definition py_isspace :: "char \<Rightarrow> bool" where
  "py_isspace c \<longleftrightarrow>
     c \<in> set [CHR 0x09, CHR 0x0A, CHR 0x0B, CHR 0x0C, CHR 0x0D,
              CHR 0x1C, CHR 0x1D, CHR 0x1E, CHR 0x1F, CHR '' '']"

text \<open>\<^verbatim>\<open>s.split()\<close>: the maximal runs of characters that are not whitespace.\<close>

fun split_words :: "string \<Rightarrow> string \<Rightarrow> string list" where
  "split_words cur [] = (if cur = [] then [] else [cur])"
| "split_words cur (c # cs) =
     (if py_isspace c then (if cur = [] then split_words [] cs else cur # split_words [] cs)
      else split_words (cur @ [c]) cs)"

definition py_split :: "string \<Rightarrow> string list" where
  "py_split s = split_words [] s"

text \<open>\<^verbatim>\<open>sep.join(words)\<close>\<close>

fun py_join :: "string \<Rightarrow> string list \<Rightarrow> string" where
  "py_join sep [] = []"
| "py_join sep [x] = x"
| "py_join sep (x # y # xs) = x @ sep @ py_join sep (y # xs)"

text \<open>\<^verbatim>\<open>s.lower()\<close>\<close>

definition lower_char :: "char \<Rightarrow> char" where
  "lower_char c =
     (let n = (of_char c :: nat) in if 65 \<le> n \<and> n \<le> 90 then char_of (n + 32) else c)"

definition py_lower :: "string \<Rightarrow> string" where
  "py_lower s = map lower_char s"

text \<open>\<^verbatim>\<open>s.strip()\<close>\<close>

definition py_strip :: "string \<Rightarrow> string" where
  "py_strip s = rev (dropWhile py_isspace (rev (dropWhile py_isspace s)))"

text \<open>
  \<^verbatim>\<open>string.printable\<close>: digits, letters, punctuation (the codes 33 to 126 between
  them), and the whitespace characters space, tab, newline, return, \<^verbatim>\<open>\x0b\<close>, \<^verbatim>\<open>\x0c\<close>.
\<close>

definition printable :: "char \<Rightarrow> bool" where
  "printable c =
     (let n = (of_char c :: nat) in (32 \<le> n \<and> n \<le> 126) \<or> (9 \<le> n \<and> n \<le> 13))"

text \<open>\<^verbatim>\<open>re.sub("c+", "c", text)\<close> for a single character \<open>c\<close>: every run of \<open>c\<close> becomes one.\<close>

fun squeeze :: "char \<Rightarrow> string \<Rightarrow> string" where
  "squeeze c (x # y # xs) =
     (if x = c \<and> y = c then squeeze c (y # xs) else x # squeeze c (y # xs))"
| "squeeze c xs = xs"

section \<open>The fact extractors\<close>

definition get_page_html :: "world \<Rightarrow> string \<Rightarrow> py_exception + string" where
  "get_page_html w title =
     propagate (wikipedia_search w title) (\<lambda>results.
       case results of [] \<Rightarrow> Inl IndexError | r # _ \<Rightarrow> wikipedia_page_html w r)"

definition get_first_infobox_text :: "world \<Rightarrow> string \<Rightarrow> py_exception + string" where
  "get_first_infobox_text w html =
     (case infobox_texts w html of
        [] \<Rightarrow> Inl (LookupError ''Page has no infobox'')
      | r # _ \<Rightarrow> Inr r)"

text \<open>
  A character outside ASCII is several bytes here and one code point in Python; each
  becomes a space, and the run of spaces is squeezed to a single one either way.
\<close>

definition clean_text :: "string \<Rightarrow> string" where
  "clean_text text =
     (let only_ascii = map (\<lambda>char. if printable char then char else CHR '' '') text;
          no_dup_spaces = squeeze (CHR '' '') only_ascii;
          no_dup_newlines = squeeze (CHR 0x0A) no_dup_spaces
      in no_dup_newlines)"

text \<open>The match object is represented by the text of the pattern's capturing group.\<close>

definition get_match :: "world \<Rightarrow> string \<Rightarrow> regex \<Rightarrow> string \<Rightarrow> py_exception + string" where
  "get_match w text pattern error_text =
     (case re_search w Dotall_Ignorecase pattern text of
        None \<Rightarrow> Inl (AttributeError error_text)
      | Some m \<Rightarrow> Inr m)"

text \<open>
  Each extractor starts with
  \<^verbatim>\<open>infobox_text = clean_text(get_first_infobox_text(get_page_html(name)))\<close>,
  where either call may raise.
\<close>

definition get_polar_radius :: "world \<Rightarrow> string \<Rightarrow> py_exception + string" where
  "get_polar_radius w planet_name =
     propagate (get_page_html w planet_name) (\<lambda>html.
     propagate (get_first_infobox_text w html) (\<lambda>text.
     let infobox_text = clean_text text in
       get_match w infobox_text Polar_radius_re
         ''Page infobox has no polar radius information''))"

definition get_birth_date :: "world \<Rightarrow> string \<Rightarrow> py_exception + string" where
  "get_birth_date w name =
     propagate (get_page_html w name) (\<lambda>html.
     propagate (get_first_infobox_text w html) (\<lambda>text.
     let infobox_text = clean_text text in
       get_match w infobox_text Birth_re
         ''Page infobox has no birth information (at least none in xxxx-xx-xx format)''))"

definition get_university_motto :: "world \<Rightarrow> string \<Rightarrow> py_exception + string" where
  "get_university_motto w name =
     propagate (get_page_html w name) (\<lambda>html.
     propagate (get_first_infobox_text w html) (\<lambda>text.
     let infobox_text = clean_text text in
       get_match w infobox_text Motto_re ''Page infobox has no motto information''))"

definition get_artist_genre :: "world \<Rightarrow> string \<Rightarrow> py_exception + string" where
  "get_artist_genre w name =
     propagate (get_page_html w name) (\<lambda>html.
     propagate (get_first_infobox_text w html) (\<lambda>text.
     let infobox_text = clean_text text in
       get_match w infobox_text Genre_re ''Page infobox has no genre information''))"

text \<open>This extractor searches by itself, without flags, and returns its error text.\<close>

definition get_painter_movement :: "world \<Rightarrow> string \<Rightarrow> py_exception + string" where
  "get_painter_movement w painter_name =
     propagate (get_page_html w painter_name) (\<lambda>html.
     propagate (get_first_infobox_text w html) (\<lambda>text.
     let infobox_text = clean_text text in
       case re_search w No_flags Movement_re infobox_text of
         Some m \<Rightarrow> Inr (py_strip m)
       | None \<Rightarrow> Inr ''Page infobox has no artistic movement information''))"

definition get_notable_work :: "world \<Rightarrow> string \<Rightarrow> py_exception + string" where
  "get_notable_work w painter_name =
     propagate (get_page_html w painter_name) (\<lambda>html.
     propagate (get_first_infobox_text w html) (\<lambda>text.
     let infobox_text = clean_text text in
       get_match w infobox_text Notable_work_re
         ''Page infobox has no notable work information''))"

section \<open>The actions\<close>

text \<open>
  An action takes the captured words and returns a list of answers, or raises.
  \<^verbatim>\<open>matches[0]\<close> raises \<^verbatim>\<open>IndexError\<close> on the empty list.
\<close>

type_synonym action = "string list \<Rightarrow> py_exception + string list"

definition notable_work :: "world \<Rightarrow> action" where
  "notable_work w matches =
     propagate (get_notable_work w (py_join '' '' matches)) (\<lambda>r. Inr [r])"

definition university_motto :: "world \<Rightarrow> action" where
  "university_motto w matches =
     (case matches of
        [] \<Rightarrow> Inl IndexError
      | m0 # _ \<Rightarrow> propagate (get_university_motto w m0) (\<lambda>r. Inr [r]))"

definition painter_movement :: "world \<Rightarrow> action" where
  "painter_movement w matches =
     (case matches of
        [] \<Rightarrow> Inl IndexError
      | m0 # _ \<Rightarrow> propagate (get_painter_movement w m0) (\<lambda>r. Inr [r]))"

definition artist_genre :: "world \<Rightarrow> action" where
  "artist_genre w matches =
     (case matches of
        [] \<Rightarrow> Inl IndexError
      | m0 # _ \<Rightarrow> propagate (get_artist_genre w m0) (\<lambda>r. Inr [r]))"

definition birth_date :: "world \<Rightarrow> action" where
  "birth_date w matches =
     propagate (get_birth_date w (py_join '' '' matches)) (\<lambda>r. Inr [r])"

definition polar_radius :: "world \<Rightarrow> action" where
  "polar_radius w matches =
     (case matches of
        [] \<Rightarrow> Inl IndexError
      | m0 # _ \<Rightarrow> propagate (get_polar_radius w m0) (\<lambda>r. Inr [r]))"

definition bye_action :: action where
  "bye_action dummy = Inl KeyboardInterrupt"

section \<open>The pattern-action list and its search\<close>

definition pa_list :: "world \<Rightarrow> (string list \<times> action) list" where
  "pa_list w =
     [(py_split ''when was % born'', birth_date w),
      (py_split ''what is the polar radius of %'', polar_radius w),
      (py_split ''what is the movement of %'', painter_movement w),
      (py_split ''what genre is %'', artist_genre w),
      (py_split ''what is the motto of %'', university_motto w),
      (py_split ''what is one work from %'', notable_work w),
      ([''bye''], bye_action)]"

text \<open>
  The result of a search records, beside what the function returns or raises, which
  actions were called: the position in the list of the entry and the argument passed.
\<close>

record dispatch =
  calls :: "(nat \<times> string list) list"
  outcome :: "py_exception + string list"

text \<open>
  The \<^verbatim>\<open>for\<close> loop of \<^verbatim>\<open>search_pa_list\<close> over a pattern-action list, \<open>i\<close> being the
  position of the entry the loop is at.
\<close>

fun search_pa :: "nat \<Rightarrow> (string list \<times> action) list \<Rightarrow> string list \<Rightarrow> dispatch" where
  "search_pa i [] src = \<lparr>calls = [], outcome = Inr [''I don't understand'']\<rparr>"
| "search_pa i ((pat, act) # rest) src =
     (case match pat src of
        None \<Rightarrow> search_pa (Suc i) rest src
      | Some mat \<Rightarrow>
          \<lparr>calls = [(i, mat)],
           outcome = (case act mat of
                        Inl e \<Rightarrow> Inl e
                      | Inr answer \<Rightarrow> Inr (if answer \<noteq> [] then answer else [''No answers'']))\<rparr>)"

definition search_pa_list :: "world \<Rightarrow> string list \<Rightarrow> dispatch" where
  "search_pa_list w src = search_pa 0 (pa_list w) src"

section \<open>The query loop\<close>

text \<open>
  Standard input is the list of what \<^verbatim>\<open>input\<close> meets: a line, or Ctrl-C
  (\<^verbatim>\<open>KeyboardInterrupt\<close>); at its end \<^verbatim>\<open>input\<close> raises \<^verbatim>\<open>EOFError\<close>. Standard
  output is the list of the texts printed and of the prompts.
\<close>

datatype stdin_event = Line string | Ctrl_C

datatype stdout_event = Print string | Prompt string

definition py_replace_qmark :: "string \<Rightarrow> string" where
  "py_replace_qmark s = filter (\<lambda>c. c \<noteq> CHR ''?'') s"

definition read_query :: "string \<Rightarrow> string list" where
  "read_query line = py_split (py_lower (py_replace_qmark line))"

text \<open>
  The \<^verbatim>\<open>while True\<close> loop: what it prints, and the exception that leaves it, if any
  (\<open>None\<close> after \<^verbatim>\<open>break\<close>).
\<close>

fun query_turns :: "world \<Rightarrow> stdin_event list \<Rightarrow> stdout_event list \<times> py_exception option" where
  "query_turns w [] = ([Print [], Prompt ''Your query? ''], None)"
| "query_turns w (Ctrl_C # rest) = ([Print [], Prompt ''Your query? ''], None)"
| "query_turns w (Line line # rest) =
     (case outcome (search_pa_list w (read_query line)) of
        Inl e \<Rightarrow>
          if e = KeyboardInterrupt \<or> e = EOFError
          then ([Print [], Prompt ''Your query? ''], None)
          else ([Print [], Prompt ''Your query? ''], Some e)
      | Inr answers \<Rightarrow>
          (case query_turns w rest of
             (out, exc) \<Rightarrow> (Print [] # Prompt ''Your query? '' # map Print answers @ out, exc)))"

definition query_loop :: "world \<Rightarrow> stdin_event list \<Rightarrow> stdout_event list \<times> py_exception option" where
  "query_loop w stdin =
     (case query_turns w stdin of
        (out, None) \<Rightarrow>
          (Print (''Welcome to the Wikipedia chatbot!'' @ [CHR 0x0A]) # out
             @ [Print (CHR 0x0A # ''So long!'' @ [CHR 0x0A])], None)
      | (out, Some e) \<Rightarrow>
          (Print (''Welcome to the Wikipedia chatbot!'' @ [CHR 0x0A]) # out, Some e))"

section \<open>Notions used to state the properties\<close>

text \<open>
  \<open>consumes pat segs\<close>: the runs \<open>segs\<close> of source words, one for each token of the
  pattern, are what the tokens may consume: a wildcard a run that is not empty, a
  literal the one word equal to it. \<open>captured pat segs\<close> is the concatenation of the
  runs of the wildcards, in the order of the pattern.
\<close>

fun consumes :: "string list \<Rightarrow> string list list \<Rightarrow> bool" where
  "consumes [] [] = True"
| "consumes (p # pat) (seg # segs) =
     ((if p = wildcard then seg \<noteq> [] else seg = [p]) \<and> consumes pat segs)"
| "consumes _ _ = False"

fun captured :: "string list \<Rightarrow> string list list \<Rightarrow> string list" where
  "captured (p # pat) (seg # segs) =
     (if p = wildcard then seg @ captured pat segs else captured pat segs)"
| "captured _ _ = []"

text \<open>
  Two worlds to run the program in. In \<open>echo_world\<close> a search finds the title asked
  for, the page and its only infobox are that title, and every pattern is found with
  the whole text as its group: an extractor returns the title it was asked about. In
  \<open>factless_world\<close> no pattern is ever found: no page has the fact.
\<close>

definition echo_world :: world where
  "echo_world =
     \<lparr>wikipedia_search = (\<lambda>title. Inr [title]),
      wikipedia_page_html = (\<lambda>title. Inr title),
      infobox_texts = (\<lambda>html. [html]),
      re_search = (\<lambda>flags pattern text. Some text)\<rparr>"

definition factless_world :: world where
  "factless_world = echo_world\<lparr>re_search := (\<lambda>flags pattern text. None)\<rparr>"

text \<open>
  \<^verbatim>\<open>get_first_infobox_text(get_page_html(title))\<close>: the text every extractor cleans and
  searches, or the exception of the search, of the page or of the missing infobox.
\<close>

definition first_infobox :: "world \<Rightarrow> string \<Rightarrow> py_exception + string" where
  "first_infobox w title = propagate (get_page_html w title) (get_first_infobox_text w)"

text \<open>
  A line of ASCII characters: on such a line \<open>read_query\<close> is what the program
  computes.
\<close>

definition ascii :: "string \<Rightarrow> bool" where
  "ascii s = list_all (\<lambda>c. (of_char c :: nat) < 128) s"

text \<open>
  What a turn on a line prints before the next one, when its search returns: the empty
  line, the prompt, and one line for each answer.
\<close>

definition answers_of :: "world \<Rightarrow> string \<Rightarrow> string list" where
  "answers_of w line =
     (case outcome (search_pa_list w (read_query line)) of Inl e \<Rightarrow> [] | Inr answers \<Rightarrow> answers)"

definition turn_output :: "world \<Rightarrow> string \<Rightarrow> stdout_event list" where
  "turn_output w line = Print [] # Prompt ''Your query? '' # map Print (answers_of w line)"

text \<open>In \<open>pageless_world\<close> every search comes back empty.\<close>

definition pageless_world :: world where
  "pageless_world = echo_world\<lparr>wikipedia_search := (\<lambda>title. Inr [])\<rparr>"

section \<open>Lemmas\<close>

subsection \<open>The search over wildcard lengths\<close>

lemma first_success_upt_Some:
  "first_success f [a..<b] = Some r \<Longrightarrow>
     \<exists>L. a \<le> L \<and> L < b \<and> f L = Some r \<and> (\<forall>L'. a \<le> L' \<and> L' < L \<longrightarrow> f L' = None)"
proof (induction "b - a" arbitrary: a)
  case 0
  then show ?case by simp
next
  case (Suc n)
  then have ab: "a < b" and n: "n = b - Suc a" by arith+
  show ?case
  proof (cases "f a")
    case (Some r')
    with Suc.prems ab have "r' = r" by (simp add: upt_conv_Cons)
    with Some ab show ?thesis by (intro exI[of _ a]) auto
  next
    case None
    with Suc.prems ab have "first_success f [Suc a..<b] = Some r"
      by (simp add: upt_conv_Cons)
    from Suc.hyps(1)[OF n this] obtain L where
      L: "Suc a \<le> L" "L < b" "f L = Some r" "\<forall>L'. Suc a \<le> L' \<and> L' < L \<longrightarrow> f L' = None"
      by blast
    have "\<forall>L'. a \<le> L' \<and> L' < L \<longrightarrow> f L' = None"
    proof (intro allI impI)
      fix L' assume "a \<le> L' \<and> L' < L"
      then show "f L' = None" using None L(4) by (cases "L' = a") auto
    qed
    with L show ?thesis by (intro exI[of _ L]) auto
  qed
qed

lemma first_success_upt_least:
  "a \<le> L \<Longrightarrow> L < b \<Longrightarrow> f L = Some r \<Longrightarrow> (\<forall>L'. a \<le> L' \<and> L' < L \<longrightarrow> f L' = None)
     \<Longrightarrow> first_success f [a..<b] = Some r"
proof (induction "L - a" arbitrary: a)
  case 0
  then have "a = L" by simp
  with 0 show ?case by (simp add: upt_conv_Cons)
next
  case (Suc n)
  then have aL: "a < L" and n: "n = L - Suc a" by arith+
  with Suc.prems have fa: "f a = None" by simp
  have "first_success f [Suc a..<b] = Some r"
    using Suc.hyps(1)[OF n] Suc.prems aL by simp
  with fa aL Suc.prems show ?case by (simp add: upt_conv_Cons)
qed

subsection \<open>The matcher\<close>

lemma match_wildcard:
  "match (wildcard # pat) src =
     first_success (\<lambda>L. case match pat (drop L src) of None \<Rightarrow> None
                        | Some c \<Rightarrow> Some (take L src @ c)) [1 ..< Suc (length src)]"
proof (cases src)
  case Nil
  then show ?thesis by simp
next
  case (Cons s rest)
  show ?thesis unfolding Cons by (simp del: upt_Suc)
qed

lemma match_wildcard_least:
  assumes "1 \<le> L" "L \<le> length src" "match pat (drop L src) = Some c"
    and "\<forall>L'. 1 \<le> L' \<and> L' < L \<longrightarrow> match pat (drop L' src) = None"
  shows "match (wildcard # pat) src = Some (take L src @ c)"
  unfolding match_wildcard
  by (rule first_success_upt_least[where L = L]) (use assms in auto)

lemma match_wildcard_Some:
  assumes "match (wildcard # pat) src = Some cap"
  shows "\<exists>L c. 1 \<le> L \<and> L \<le> length src \<and> match pat (drop L src) = Some c
           \<and> cap = take L src @ c
           \<and> (\<forall>L'. 1 \<le> L' \<and> L' < L \<longrightarrow> match pat (drop L' src) = None)"
proof -
  let ?f = "\<lambda>L. case match pat (drop L src) of None \<Rightarrow> None
                 | Some c \<Rightarrow> Some (take L src @ c)"
  from assms have "first_success ?f [1 ..< Suc (length src)] = Some cap"
    by (simp only: match_wildcard)
  from first_success_upt_Some[OF this] obtain L where
    L: "1 \<le> L" "L < Suc (length src)" "?f L = Some cap"
      "\<forall>L'. 1 \<le> L' \<and> L' < L \<longrightarrow> ?f L' = None"
    by blast
  from L(3) obtain c where c: "match pat (drop L src) = Some c" "cap = take L src @ c"
    by (auto split: option.splits)
  have "\<forall>L'. 1 \<le> L' \<and> L' < L \<longrightarrow> match pat (drop L' src) = None"
    using L(4) by (auto split: option.splits)
  with L(1,2) c show ?thesis by (intro exI[of _ L] exI[of _ c]) auto
qed

lemma match_spans:
  "match P S = Some cap \<Longrightarrow>
     \<exists>segs. consumes P segs \<and> concat segs = S \<and> captured P segs = cap"
proof (induction P S arbitrary: cap rule: match.induct)
  case 1
  then show ?case by (intro exI[of _ "[]"]) simp
next
  case (2 s src)
  then show ?case by simp
next
  case (3 p pat)
  then show ?case by simp
next
  case (4 p pat s src)
  show ?case
  proof (cases "p = wildcard")
    case False
    with "4.prems" have ps: "p = s" and m: "match pat src = Some cap"
      by (auto split: if_splits)
    from "4.IH"(1)[OF False ps m] obtain segs where
      "consumes pat segs" "concat segs = src" "captured pat segs = cap" by blast
    with False ps show ?thesis by (intro exI[of _ "[s] # segs"]) simp
  next
    case True
    from "4.prems" True have "match (wildcard # pat) (s # src) = Some cap" by simp
    from match_wildcard_Some[OF this] obtain L c where
      L: "1 \<le> L" and c: "match pat (drop L (s # src)) = Some c"
      and cap: "cap = take L (s # src) @ c"
      by blast
    have nw: "\<not> p \<noteq> wildcard" using True by simp
    from "4.IH"(2)[OF nw c] obtain segs where
      segs: "consumes pat segs" "concat segs = drop L (s # src)" "captured pat segs = c"
      by blast
    have ne: "take L (s # src) \<noteq> []" using L by (cases L) simp_all
    show ?thesis
      using True segs cap ne
      by (intro exI[of _ "take L (s # src) # segs"]) simp
  qed
qed

lemma match_one_empty: "(P = []) \<noteq> (S = []) \<Longrightarrow> match P S = None"
  by (cases P; cases S) simp_all

lemma match_no_wildcard:
  "wildcard \<notin> set P \<Longrightarrow> match P S = (if P = S then Some [] else None)"
proof (induction P arbitrary: S)
  case Nil
  then show ?case by (cases S) simp_all
next
  case (Cons p P)
  then show ?case by (cases S) auto
qed

subsection \<open>The pattern-action list\<close>

lemma pa_list_patterns:
  "pa_list w =
     [([''when'', ''was'', ''%'', ''born''], birth_date w),
      ([''what'', ''is'', ''the'', ''polar'', ''radius'', ''of'', ''%''], polar_radius w),
      ([''what'', ''is'', ''the'', ''movement'', ''of'', ''%''], painter_movement w),
      ([''what'', ''genre'', ''is'', ''%''], artist_genre w),
      ([''what'', ''is'', ''the'', ''motto'', ''of'', ''%''], university_motto w),
      ([''what'', ''is'', ''one'', ''work'', ''from'', ''%''], notable_work w),
      ([''bye''], bye_action)]"
  by (simp add: pa_list_def py_split_def py_isspace_def)

lemma search_pa_skip:
  "\<forall>(pat, act) \<in> set pre. match pat src = None \<Longrightarrow>
     search_pa i (pre @ post) src = search_pa (i + length pre) post src"
  by (induction pre arbitrary: i) auto

lemma search_pa_none:
  "\<forall>(pat, act) \<in> set reg. match pat src = None \<Longrightarrow>
     search_pa i reg src = \<lparr>calls = [], outcome = Inr [''I don't understand'']\<rparr>"
  by (induction reg arbitrary: i) auto

lemma search_pa_first:
  assumes "\<forall>(p, a) \<in> set pre. match p src = None" and "match pat src = Some mat"
  shows "search_pa 0 (pre @ (pat, act) # post) src =
           \<lparr>calls = [(length pre, mat)],
            outcome = (case act mat of
                         Inl e \<Rightarrow> Inl e
                       | Inr answer \<Rightarrow>
                           Inr (if answer \<noteq> [] then answer else [''No answers'']))\<rparr>"
  using assms by (simp add: search_pa_skip)

lemma search_pa_outcome_nonempty:
  "outcome (search_pa i reg src) = Inr answer \<Longrightarrow> answer \<noteq> []"
  by (induction i reg src rule: search_pa.induct)
     (auto split: option.splits sum.splits if_splits)

lemma registered_single:
  "(pat, act) \<in> set (pa_list w) \<Longrightarrow> act mat = Inr answer \<Longrightarrow> length answer = 1"
  by (auto simp: pa_list_def birth_date_def polar_radius_def painter_movement_def
        artist_genre_def university_motto_def notable_work_def bye_action_def
        propagate_def
      split: list.splits sum.splits)

lemma search_pa_single:
  "\<forall>(pat, act) \<in> set reg. \<forall>mat answer. act mat = Inr answer \<longrightarrow> length answer = 1 \<Longrightarrow>
   outcome (search_pa i reg src) = Inr answer \<Longrightarrow> length answer = 1"
  by (induction i reg src rule: search_pa.induct)
     (auto split: option.splits sum.splits if_splits)

lemma search_pa_list_single:
  "outcome (search_pa_list w src) = Inr answer \<Longrightarrow> length answer = 1"
  unfolding search_pa_list_def
  by (rule search_pa_single[where reg = "pa_list w"]) (auto dest: registered_single)

lemma search_pa_list_bye:
  "search_pa_list w [''bye''] = \<lparr>calls = [(6, [])], outcome = Inl KeyboardInterrupt\<rparr>"
  by (simp add: search_pa_list_def pa_list_patterns wildcard_def bye_action_def)

lemma search_pa_list_goodbye:
  "search_pa_list w [''goodbye''] = \<lparr>calls = [], outcome = Inr [''I don't understand'']\<rparr>"
  by (simp add: search_pa_list_def pa_list_patterns wildcard_def)

lemma read_query_bye: "read_query ''bye'' = [''bye'']"
  by code_simp

subsection \<open>Failures of a lookup\<close>

lemma query_turns_answered:
  "\<forall>l \<in> set ls. \<exists>a. outcome (search_pa_list w (read_query l)) = Inr a \<Longrightarrow>
     query_turns w (map Line ls @ evs) =
       (concat (map (turn_output w) ls) @ fst (query_turns w evs), snd (query_turns w evs))"
  by (induction ls) (auto simp: turn_output_def answers_of_def split: prod.splits)

lemma query_loop_raises:
  assumes "\<forall>l \<in> set ls. \<exists>a. outcome (search_pa_list w (read_query l)) = Inr a"
    and "outcome (search_pa_list w (read_query line)) = Inl e"
    and "e \<noteq> KeyboardInterrupt" "e \<noteq> EOFError"
  shows "query_loop w (map Line ls @ Line line # rest) =
           (Print (''Welcome to the Wikipedia chatbot!'' @ [CHR 0x0A])
              # concat (map (turn_output w) ls) @ [Print [], Prompt ''Your query? ''],
            Some e)"
  using assms(2-) by (simp add: query_loop_def query_turns_answered[OF assms(1)])

lemma query_loop_caught:
  assumes "\<forall>l \<in> set ls. \<exists>a. outcome (search_pa_list w (read_query l)) = Inr a"
    and "outcome (search_pa_list w (read_query line)) = Inl e"
    and "e = KeyboardInterrupt \<or> e = EOFError"
  shows "query_loop w (map Line ls @ Line line # rest) =
           (Print (''Welcome to the Wikipedia chatbot!'' @ [CHR 0x0A])
              # concat (map (turn_output w) ls)
              @ [Print [], Prompt ''Your query? '', Print (CHR 0x0A # ''So long!'' @ [CHR 0x0A])],
            None)"
  using assms(2-) by (auto simp add: query_loop_def query_turns_answered[OF assms(1)])

lemma search_pa_list_raises:
  assumes "k < length (pa_list w)"
    and "\<forall>(p, a) \<in> set (take k (pa_list w)). match p src = None"
    and "match (fst (pa_list w ! k)) src = Some mat"
    and "snd (pa_list w ! k) mat = Inl e"
  shows "search_pa_list w src = \<lparr>calls = [(k, mat)], outcome = Inl e\<rparr>"
proof -
  have split: "pa_list w = take k (pa_list w) @ (fst (pa_list w ! k), snd (pa_list w ! k))
                 # drop (Suc k) (pa_list w)"
    using assms(1) by (simp add: id_take_nth_drop)
  have "search_pa 0 (take k (pa_list w) @ (fst (pa_list w ! k), snd (pa_list w ! k))
                 # drop (Suc k) (pa_list w)) src = \<lparr>calls = [(k, mat)], outcome = Inl e\<rparr>"
    using search_pa_first[OF assms(2,3), of "snd (pa_list w ! k)" "drop (Suc k) (pa_list w)"]
      assms(1,4) by simp
  with split show ?thesis by (simp add: search_pa_list_def)
qed

lemma join_actions_raise:
  "first_infobox w (py_join '' '' matches) = Inl e \<Longrightarrow>
     birth_date w matches = Inl e \<and> notable_work w matches = Inl e"
  by (auto simp: first_infobox_def birth_date_def notable_work_def get_birth_date_def
        get_notable_work_def propagate_def split: sum.splits)

lemma first_word_actions_raise:
  "first_infobox w m0 = Inl e \<Longrightarrow>
     polar_radius w (m0 # ms) = Inl e \<and> painter_movement w (m0 # ms) = Inl e
     \<and> artist_genre w (m0 # ms) = Inl e \<and> university_motto w (m0 # ms) = Inl e"
  by (auto simp: first_infobox_def polar_radius_def painter_movement_def artist_genre_def
        university_motto_def get_polar_radius_def get_painter_movement_def
        get_artist_genre_def get_university_motto_def propagate_def split: sum.splits)

lemma birth_date_no_fact:
  "first_infobox w (py_join '' '' matches) = Inr text \<Longrightarrow>
   re_search w Dotall_Ignorecase Birth_re (clean_text text) = None \<Longrightarrow>
     birth_date w matches = Inl (AttributeError
       ''Page infobox has no birth information (at least none in xxxx-xx-xx format)'')"
  by (auto simp: first_infobox_def birth_date_def get_birth_date_def get_match_def
        propagate_def split: sum.splits)

lemma notable_work_no_fact:
  "first_infobox w (py_join '' '' matches) = Inr text \<Longrightarrow>
   re_search w Dotall_Ignorecase Notable_work_re (clean_text text) = None \<Longrightarrow>
     notable_work w matches = Inl (AttributeError
       ''Page infobox has no notable work information'')"
  by (auto simp: first_infobox_def notable_work_def get_notable_work_def get_match_def
        propagate_def split: sum.splits)

lemma polar_radius_no_fact:
  "first_infobox w m0 = Inr text \<Longrightarrow>
   re_search w Dotall_Ignorecase Polar_radius_re (clean_text text) = None \<Longrightarrow>
     polar_radius w (m0 # ms) = Inl (AttributeError
       ''Page infobox has no polar radius information'')"
  by (auto simp: first_infobox_def polar_radius_def get_polar_radius_def get_match_def
        propagate_def split: sum.splits)

lemma artist_genre_no_fact:
  "first_infobox w m0 = Inr text \<Longrightarrow>
   re_search w Dotall_Ignorecase Genre_re (clean_text text) = None \<Longrightarrow>
     artist_genre w (m0 # ms) = Inl (AttributeError ''Page infobox has no genre information'')"
  by (auto simp: first_infobox_def artist_genre_def get_artist_genre_def get_match_def
        propagate_def split: sum.splits)

lemma university_motto_no_fact:
  "first_infobox w m0 = Inr text \<Longrightarrow>
   re_search w Dotall_Ignorecase Motto_re (clean_text text) = None \<Longrightarrow>
     university_motto w (m0 # ms) = Inl (AttributeError ''Page infobox has no motto information'')"
  by (auto simp: first_infobox_def university_motto_def get_university_motto_def get_match_def
        propagate_def split: sum.splits)

lemma painter_movement_no_fact:
  "first_infobox w m0 = Inr text \<Longrightarrow>
   re_search w No_flags Movement_re (clean_text text) = None \<Longrightarrow>
     painter_movement w (m0 # ms) = Inr [''Page infobox has no artistic movement information'']"
  by (auto simp: first_infobox_def painter_movement_def get_painter_movement_def
        propagate_def split: sum.splits)

section \<open>The claims\<close>

text \<open>
  Claim C1. The search goes through the pattern-action list in its order and stops at
  the first entry whose pattern matches the source: when no entry of \<open>pre\<close> matches and
  the pattern of the next entry does, the action of that entry is the only one called,
  with the captured words, whatever entries follow in \<open>post\<close> and whether or not their
  patterns match too; the answer is what that action returns.
\<close>

theorem dispatch_first_match:
  assumes "\<forall>(p, a) \<in> set pre. match p src = None"
    and "match pat src = Some mat"
  shows "search_pa 0 (pre @ (pat, act) # post) src =
           \<lparr>calls = [(length pre, mat)],
            outcome = (case act mat of
                         Inl e \<Rightarrow> Inl e
                       | Inr answer \<Rightarrow>
                           Inr (if answer \<noteq> [] then answer else [''No answers'']))\<rparr>"
  using assms by (rule search_pa_first)

text \<open>
  The list of the witness has two entries that match the source, at positions 1 and 2;
  the action at position 1 is the one called.
\<close>

theorem dispatch_first_match_witness:
  "match [''bye''] [''b'', ''b''] = None
   \<and> match [''%''] [''b'', ''b''] = Some [''b'', ''b'']
   \<and> match [''%'', ''b''] [''b'', ''b''] = Some [''b'']
   \<and> search_pa 0
        [([''bye''], bye_action), ([''%''], \<lambda>m. Inr m), ([''%'', ''b''], \<lambda>m. Inr [''later''])]
        [''b'', ''b'']
      = \<lparr>calls = [(1, [''b'', ''b''])], outcome = Inr [''b'', ''b'']\<rparr>"
proof -
  have h1: "\<forall>(p, a) \<in> set [([''bye''], bye_action)]. match p [''b'', ''b''] = None"
    by (simp add: wildcard_def)
  have h2: "match [''%''] [''b'', ''b''] = Some [''b'', ''b'']"
    by (simp add: wildcard_def)
  have h3: "match [''%'', ''b''] [''b'', ''b''] = Some [''b'']"
    by (simp add: wildcard_def)
  from dispatch_first_match[OF h1 h2, of "\<lambda>m. Inr m" "[([''%'', ''b''], \<lambda>m. Inr [''later''])]"]
  have "search_pa 0
        [([''bye''], bye_action), ([''%''], \<lambda>m. Inr m), ([''%'', ''b''], \<lambda>m. Inr [''later''])]
        [''b'', ''b'']
      = \<lparr>calls = [(1, [''b'', ''b''])], outcome = Inr [''b'', ''b'']\<rparr>"
    by simp
  moreover have "match [''bye''] [''b'', ''b''] = None"
    by (simp add: wildcard_def)
  ultimately show ?thesis using h2 h3 by blast
qed

text \<open>
  Claim C4. When no pattern of the list matches the source, the result is the single
  answer \<^verbatim>\<open>I don't understand\<close> and no action is called; so for any list, and so
  for the list of the program.
\<close>

theorem dispatch_no_match:
  "((\<forall>(p, a) \<in> set reg. match p src = None) \<longrightarrow>
      search_pa i reg src = \<lparr>calls = [], outcome = Inr [''I don't understand'']\<rparr>)
   \<and> ((\<forall>(p, a) \<in> set (pa_list w). match p src = None) \<longrightarrow>
      search_pa_list w src = \<lparr>calls = [], outcome = Inr [''I don't understand'']\<rparr>)"
  by (simp add: search_pa_none search_pa_list_def)

text \<open>
  The source \<^verbatim>\<open>hello there\<close> matches no pattern of the program's list.
\<close>

theorem dispatch_no_match_witness:
  "list_all (\<lambda>(p, a). match p [''hello'', ''there''] = None) (pa_list echo_world)
   \<and> search_pa 0 (pa_list echo_world) [''hello'', ''there'']
       = \<lparr>calls = [], outcome = Inr [''I don't understand'']\<rparr>
   \<and> search_pa_list echo_world [''hello'', ''there'']
       = \<lparr>calls = [], outcome = Inr [''I don't understand'']\<rparr>"
proof -
  have h: "\<forall>(p, a) \<in> set (pa_list echo_world). match p [''hello'', ''there''] = None"
    by (simp add: pa_list_patterns wildcard_def)
  with dispatch_no_match[of "pa_list echo_world" "[''hello'', ''there'']" 0 echo_world]
  show ?thesis by (simp add: list_all_iff)
qed

text \<open>
  Claim C5. When the action of the first matching entry returns the empty list, the
  search returns the single answer \<^verbatim>\<open>No answers\<close> in its place.
\<close>

theorem dispatch_empty_answer:
  assumes "\<forall>(p, a) \<in> set pre. match p src = None"
    and "match pat src = Some mat"
    and "act mat = Inr []"
  shows "search_pa 0 (pre @ (pat, act) # post) src =
           \<lparr>calls = [(length pre, mat)], outcome = Inr [''No answers'']\<rparr>"
  using assms by (simp add: search_pa_first)

text \<open>
  No action of the program's list returns an empty list, so the witness uses a list
  with an action that does.
\<close>

theorem dispatch_empty_answer_witness:
  "match [''bye''] [''who'', ''is'', ''ada''] = None
   \<and> match [''who'', ''is'', ''%''] [''who'', ''is'', ''ada''] = Some [''ada'']
   \<and> search_pa 0
        [([''bye''], bye_action), ([''who'', ''is'', ''%''], \<lambda>m. Inr []), ([''%''], \<lambda>m. Inr m)]
        [''who'', ''is'', ''ada'']
      = \<lparr>calls = [(1, [''ada''])], outcome = Inr [''No answers'']\<rparr>"
proof -
  have h1: "\<forall>(p, a) \<in> set [([''bye''], bye_action)]. match p [''who'', ''is'', ''ada''] = None"
    by (simp add: wildcard_def)
  have h2: "match [''who'', ''is'', ''%''] [''who'', ''is'', ''ada''] = Some [''ada'']"
    by (simp add: wildcard_def)
  have h3: "(\<lambda>m::string list. (Inr [] :: py_exception + string list)) [''ada''] = Inr []"
    by simp
  from dispatch_empty_answer[OF h1 h2 h3, of "[([''%''], \<lambda>m. Inr m)]"]
  have "search_pa 0
        [([''bye''], bye_action), ([''who'', ''is'', ''%''], \<lambda>m. Inr []), ([''%''], \<lambda>m. Inr m)]
        [''who'', ''is'', ''ada'']
      = \<lparr>calls = [(1, [''ada''])], outcome = Inr [''No answers'']\<rparr>"
    by simp
  moreover have "match [''bye''] [''who'', ''is'', ''ada''] = None"
    by (simp add: wildcard_def)
  ultimately show ?thesis using h2 by blast
qed

text \<open>
  Claim C6. With the list \<^verbatim>\<open>[(["bye"], bye_action)]\<close> the source \<^verbatim>\<open>bye\<close> ends in the
  termination signal (\<^verbatim>\<open>KeyboardInterrupt\<close> raised by the action, no answers), and the
  source \<^verbatim>\<open>goodbye\<close> in the single answer \<^verbatim>\<open>I don't understand\<close>, with no action called.
  The same holds with the program's whole list, where the entry is the seventh, and the
  query loop ends on the line \<^verbatim>\<open>bye\<close> without reading further.
\<close>

theorem bye_terminates:
  "search_pa 0 [([''bye''], bye_action)] [''bye'']
     = \<lparr>calls = [(0, [])], outcome = Inl KeyboardInterrupt\<rparr>
   \<and> search_pa 0 [([''bye''], bye_action)] [''goodbye'']
     = \<lparr>calls = [], outcome = Inr [''I don't understand'']\<rparr>
   \<and> search_pa_list w [''bye''] = \<lparr>calls = [(6, [])], outcome = Inl KeyboardInterrupt\<rparr>
   \<and> search_pa_list w [''goodbye''] = \<lparr>calls = [], outcome = Inr [''I don't understand'']\<rparr>
   \<and> query_loop w (Line ''bye'' # rest)
     = ([Print (''Welcome to the Wikipedia chatbot!'' @ [CHR 0x0A]), Print [],
         Prompt ''Your query? '', Print (CHR 0x0A # ''So long!'' @ [CHR 0x0A])], None)"
proof -
  have a: "search_pa 0 [([''bye''], bye_action)] [''bye'']
     = \<lparr>calls = [(0, [])], outcome = Inl KeyboardInterrupt\<rparr>"
    by (simp add: wildcard_def bye_action_def)
  have b: "search_pa 0 [([''bye''], bye_action)] [''goodbye'']
     = \<lparr>calls = [], outcome = Inr [''I don't understand'']\<rparr>"
    by (simp add: wildcard_def)
  have c: "query_loop w (Line ''bye'' # rest)
     = ([Print (''Welcome to the Wikipedia chatbot!'' @ [CHR 0x0A]), Print [],
         Prompt ''Your query? '', Print (CHR 0x0A # ''So long!'' @ [CHR 0x0A])], None)"
    by (simp add: query_loop_def read_query_bye search_pa_list_bye)
  from a b c search_pa_list_bye search_pa_list_goodbye show ?thesis by blast
qed

text \<open>
  Claim C7. For a pattern without wildcard, the match succeeds exactly when the source
  equals the pattern, and then the capture is empty.
\<close>

theorem match_literal_pattern:
  "wildcard \<notin> set P \<Longrightarrow> match P S = (if P = S then Some [] else None)"
  by (rule match_no_wildcard)

text \<open>
  A pattern of two literals against itself, against a source that differs in a word,
  and against a shorter source.
\<close>

theorem match_literal_pattern_witness:
  "wildcard \<notin> set [''what'', ''is'']
   \<and> match [''what'', ''is''] [''what'', ''is''] = Some []
   \<and> match [''what'', ''is''] [''what'', ''was''] = None
   \<and> match [''what'', ''is''] [''what''] = None"
proof -
  have h: "wildcard \<notin> set [''what'', ''is'']" by (simp add: wildcard_def)
  from match_literal_pattern[OF h, of "[''what'', ''is'']"]
       match_literal_pattern[OF h, of "[''what'', ''was'']"]
       match_literal_pattern[OF h, of "[''what'']"] h
  show ?thesis by simp
qed

text \<open>
  Claim C8. The wildcard takes the shortest span: the pattern \<^verbatim>\<open>% b\<close> on the source
  \<^verbatim>\<open>b b\<close> captures the first \<^verbatim>\<open>b\<close> only. In general, if \<open>L\<close> is the least number of
  words after which the rest of the pattern matches the rest of the source, the wildcard
  consumes exactly those \<open>L\<close> words; and every successful match of a wildcard is of
  that kind.
\<close>

theorem shortest_first:
  "match [''%'', ''b''] [''b'', ''b''] = Some [''b'']
   \<and> (1 \<le> L \<and> L \<le> length src \<and> match pat (drop L src) = Some c
        \<and> (\<forall>L'. 1 \<le> L' \<and> L' < L \<longrightarrow> match pat (drop L' src) = None)
      \<longrightarrow> match (wildcard # pat) src = Some (take L src @ c))
   \<and> (match (wildcard # pat) src = Some cap
      \<longrightarrow> (\<exists>L c. 1 \<le> L \<and> L \<le> length src \<and> match pat (drop L src) = Some c
             \<and> cap = take L src @ c
             \<and> (\<forall>L'. 1 \<le> L' \<and> L' < L \<longrightarrow> match pat (drop L' src) = None)))"
proof (intro conjI impI)
  show "match [''%'', ''b''] [''b'', ''b''] = Some [''b'']"
    by (simp add: wildcard_def)
next
  assume "1 \<le> L \<and> L \<le> length src \<and> match pat (drop L src) = Some c
        \<and> (\<forall>L'. 1 \<le> L' \<and> L' < L \<longrightarrow> match pat (drop L' src) = None)"
  then show "match (wildcard # pat) src = Some (take L src @ c)"
    by (intro match_wildcard_least) simp_all
next
  assume "match (wildcard # pat) src = Some cap"
  then show "\<exists>L c. 1 \<le> L \<and> L \<le> length src \<and> match pat (drop L src) = Some c
             \<and> cap = take L src @ c
             \<and> (\<forall>L'. 1 \<le> L' \<and> L' < L \<longrightarrow> match pat (drop L' src) = None)"
    by (rule match_wildcard_Some)
qed

text \<open>
  On the source \<^verbatim>\<open>a c b\<close> the span of one word fails and the span grows to two.
\<close>

theorem shortest_first_witness:
  "(1::nat) \<le> 2 \<and> 2 \<le> length [''a'', ''c'', ''b'']
   \<and> match [''b''] (drop 2 [''a'', ''c'', ''b'']) = Some []
   \<and> match [''b''] (drop 1 [''a'', ''c'', ''b'']) = None
   \<and> match [''%'', ''b''] [''a'', ''c'', ''b''] = Some [''a'', ''c'']
   \<and> (\<exists>L c. 1 \<le> L \<and> L \<le> length [''a'', ''c'', ''b'']
          \<and> match [''b''] (drop L [''a'', ''c'', ''b'']) = Some c
          \<and> [''a'', ''c''] = take L [''a'', ''c'', ''b''] @ c
          \<and> (\<forall>L'. 1 \<le> L' \<and> L' < L \<longrightarrow> match [''b''] (drop L' [''a'', ''c'', ''b'']) = None))"
proof -
  have h3: "match [''b''] (drop 2 [''a'', ''c'', ''b'']) = Some []"
    by (simp add: wildcard_def)
  have h4: "\<forall>L'. 1 \<le> L' \<and> L' < 2 \<longrightarrow> match [''b''] (drop L' [''a'', ''c'', ''b'']) = None"
  proof (intro allI impI)
    fix L' :: nat assume "1 \<le> L' \<and> L' < 2"
    then have "L' = 1" by arith
    then show "match [''b''] (drop L' [''a'', ''c'', ''b'']) = None"
      by (simp add: wildcard_def)
  qed
  note sf = shortest_first[of 2 "[''a'', ''c'', ''b'']" "[''b'']" "[]" "[''a'', ''c'']"]
  have m: "match (wildcard # [''b'']) [''a'', ''c'', ''b''] = Some [''a'', ''c'']"
    using sf h3 h4 by simp
  have e: "\<exists>L c. 1 \<le> L \<and> L \<le> length [''a'', ''c'', ''b'']
          \<and> match [''b''] (drop L [''a'', ''c'', ''b'']) = Some c
          \<and> [''a'', ''c''] = take L [''a'', ''c'', ''b''] @ c
          \<and> (\<forall>L'. 1 \<le> L' \<and> L' < L \<longrightarrow> match [''b''] (drop L' [''a'', ''c'', ''b'']) = None)"
    using sf m by blast
  have m': "match [''%'', ''b''] [''a'', ''c'', ''b''] = Some [''a'', ''c'']"
    using m by (simp only: wildcard_def)
  have h5: "match [''b''] (drop 1 [''a'', ''c'', ''b'']) = None"
    by (simp add: wildcard_def)
  from h3 h5 m' e show ?thesis by simp
qed

text \<open>
  Claim C9. In a successful match the source is cut into consecutive runs, one for
  each token of the pattern: the run of a wildcard is not empty, the run of a literal is
  the literal itself, and the capture is the runs of the wildcards in order. So no token
  matches zero words, and when exactly one of pattern and source is empty there is no
  match.
\<close>

theorem wildcard_consumes_words:
  "(match P S = Some cap \<longrightarrow>
      (\<exists>segs. consumes P segs \<and> concat segs = S \<and> captured P segs = cap))
   \<and> ((P' = []) \<noteq> (S' = []) \<longrightarrow> match P' S' = None)"
  using match_spans[of P S cap] match_one_empty[of P' S'] by blast

text \<open>
  A match with a wildcard of two words; a wildcard against the empty source; the empty
  pattern against a source of one word.
\<close>

theorem wildcard_consumes_words_witness:
  "match [''when'', ''was'', ''%'', ''born''] [''when'', ''was'', ''ada'', ''lovelace'', ''born'']
     = Some [''ada'', ''lovelace'']
   \<and> (\<exists>segs. consumes [''when'', ''was'', ''%'', ''born''] segs
         \<and> concat segs = [''when'', ''was'', ''ada'', ''lovelace'', ''born'']
         \<and> captured [''when'', ''was'', ''%'', ''born''] segs = [''ada'', ''lovelace''])
   \<and> ([''%''] = []) \<noteq> (([]::string list) = [])
   \<and> match [''%''] [] = None
   \<and> match [] [''bye''] = None"
proof -
  have h: "match [''when'', ''was'', ''%'', ''born''] [''when'', ''was'', ''ada'', ''lovelace'', ''born'']
     = Some [''ada'', ''lovelace'']"
    by (simp add: wildcard_def)
  from wildcard_consumes_words[of "[''when'', ''was'', ''%'', ''born'']"
         "[''when'', ''was'', ''ada'', ''lovelace'', ''born'']" "[''ada'', ''lovelace'']"
         "[''%'']" "[]"]
       wildcard_consumes_words[of "[]" "[]" "[]" "[]" "[''bye'']"] h
  show ?thesis by simp
qed

text \<open>
  Claim C10. When \<^verbatim>\<open>search_pa_list\<close> returns, its result is not empty; it has in
  fact exactly one answer, since every action of the program's list that returns gives
  a list of one element. For any list of patterns and actions the result is not empty,
  an empty answer being replaced.
\<close>

theorem search_pa_list_returns_answers:
  "(outcome (search_pa_list w src) = Inr answer \<longrightarrow> answer \<noteq> [] \<and> length answer = 1)
   \<and> ((pat, act) \<in> set (pa_list w) \<and> act mat = Inr r \<longrightarrow> length r = 1)
   \<and> (outcome (search_pa i reg src') = Inr answer' \<longrightarrow> answer' \<noteq> [])"
proof (intro conjI impI)
  assume a: "outcome (search_pa_list w src) = Inr answer"
  then show "answer \<noteq> []"
    unfolding search_pa_list_def by (rule search_pa_outcome_nonempty)
  from a show "length answer = 1" by (rule search_pa_list_single)
next
  assume "(pat, act) \<in> set (pa_list w) \<and> act mat = Inr r"
  then show "length r = 1" by (auto dest: registered_single)
next
  assume "outcome (search_pa i reg src') = Inr answer'"
  then show "answer' \<noteq> []" by (rule search_pa_outcome_nonempty)
qed

text \<open>
  A query answered by an action, and a list whose action returns the empty list.
\<close>

theorem search_pa_list_returns_answers_witness:
  "outcome (search_pa_list echo_world [''when'', ''was'', ''ada'', ''lovelace'', ''born''])
     = Inr [''ada lovelace'']
   \<and> ([''when'', ''was'', ''%'', ''born''], birth_date echo_world) \<in> set (pa_list echo_world)
   \<and> birth_date echo_world [''ada'', ''lovelace''] = Inr [''ada lovelace'']
   \<and> outcome (search_pa 0 [([''%''], \<lambda>m. Inr [])] [''x'']) = Inr [''No answers'']
   \<and> [''ada lovelace''] \<noteq> [] \<and> length [''ada lovelace''] = 1 \<and> [''No answers''] \<noteq> []"
proof -
  have h1: "outcome (search_pa_list echo_world [''when'', ''was'', ''ada'', ''lovelace'', ''born''])
     = Inr [''ada lovelace'']"
    by code_simp
  have h2: "([''when'', ''was'', ''%'', ''born''], birth_date echo_world) \<in> set (pa_list echo_world)"
    by (simp add: pa_list_patterns)
  have h3: "birth_date echo_world [''ada'', ''lovelace''] = Inr [''ada lovelace'']"
    by code_simp
  have h4: "outcome (search_pa 0 [([''%''], \<lambda>m. Inr [])] [''x'']) = Inr [''No answers'']"
    by (simp add: wildcard_def)
  from search_pa_list_returns_answers[of echo_world
         "[''when'', ''was'', ''ada'', ''lovelace'', ''born'']" "[''ada lovelace'']"
         "[''when'', ''was'', ''%'', ''born'']" "birth_date echo_world"
         "[''ada'', ''lovelace'']" "[''ada lovelace'']"
         0 "[([''%''], \<lambda>m. Inr [])]" "[''x'']" "[''No answers'']"]
       h1 h2 h3 h4
  show ?thesis by simp
qed

text \<open>
  Claim C2, as the program has it. A failure of a lookup is not caught, neither where
  the action is called nor in the search:
  \<^item> \<^verbatim>\<open>get_match\<close> raises \<^verbatim>\<open>AttributeError\<close> with its error text when the pattern is
    not found;
  \<^item> each of the six lookup actions of the list raises what the search, the page or the
    missing infobox raised;
  \<^item> when the text of the infobox has not the fact, \<^verbatim>\<open>birth_date\<close>, \<^verbatim>\<open>notable_work\<close>,
    \<^verbatim>\<open>polar_radius\<close>, \<^verbatim>\<open>artist_genre\<close> and \<^verbatim>\<open>university_motto\<close> raise that
    \<^verbatim>\<open>AttributeError\<close>; \<^verbatim>\<open>painter_movement\<close> alone does not raise then: its extractor
    returns its error text, which is the single answer;
  \<^item> \<^verbatim>\<open>search_pa_list\<close> raises what the action of the first matching entry raises, and
    so does the loop over any list;
  \<^item> in the query loop, on lines of ASCII characters, after any number of turns that
    were answered, a turn whose search raises anything but \<^verbatim>\<open>KeyboardInterrupt\<close> and
    \<^verbatim>\<open>EOFError\<close> lets it out of the loop: nothing more is read or printed, not even
    the farewell; one that raises either of these two ends the loop with the farewell.
\<close>

theorem lookup_failure_propagates:
  "(re_search w Dotall_Ignorecase pattern infobox_text = None \<longrightarrow>
      get_match w infobox_text pattern error_text = Inl (AttributeError error_text))
   \<and> (first_infobox w (py_join '' '' matches) = Inl e_join \<longrightarrow>
        birth_date w matches = Inl e_join \<and> notable_work w matches = Inl e_join)
   \<and> (first_infobox w m0 = Inl e_first \<longrightarrow>
        polar_radius w (m0 # ms) = Inl e_first \<and> painter_movement w (m0 # ms) = Inl e_first
        \<and> artist_genre w (m0 # ms) = Inl e_first \<and> university_motto w (m0 # ms) = Inl e_first)
   \<and> (first_infobox w (py_join '' '' matches) = Inr text_join
        \<and> re_search w Dotall_Ignorecase Birth_re (clean_text text_join) = None \<longrightarrow>
        birth_date w matches = Inl (AttributeError
          ''Page infobox has no birth information (at least none in xxxx-xx-xx format)''))
   \<and> (first_infobox w (py_join '' '' matches) = Inr text_join
        \<and> re_search w Dotall_Ignorecase Notable_work_re (clean_text text_join) = None \<longrightarrow>
        notable_work w matches = Inl (AttributeError
          ''Page infobox has no notable work information''))
   \<and> (first_infobox w m0 = Inr text_first
        \<and> re_search w Dotall_Ignorecase Polar_radius_re (clean_text text_first) = None \<longrightarrow>
        polar_radius w (m0 # ms) = Inl (AttributeError
          ''Page infobox has no polar radius information''))
   \<and> (first_infobox w m0 = Inr text_first
        \<and> re_search w Dotall_Ignorecase Genre_re (clean_text text_first) = None \<longrightarrow>
        artist_genre w (m0 # ms) = Inl (AttributeError
          ''Page infobox has no genre information''))
   \<and> (first_infobox w m0 = Inr text_first
        \<and> re_search w Dotall_Ignorecase Motto_re (clean_text text_first) = None \<longrightarrow>
        university_motto w (m0 # ms) = Inl (AttributeError
          ''Page infobox has no motto information''))
   \<and> (first_infobox w m0 = Inr text_first
        \<and> re_search w No_flags Movement_re (clean_text text_first) = None \<longrightarrow>
        painter_movement w (m0 # ms) =
          Inr [''Page infobox has no artistic movement information''])
   \<and> (k < length (pa_list w)
        \<and> (\<forall>(p, a) \<in> set (take k (pa_list w)). match p src = None)
        \<and> match (fst (pa_list w ! k)) src = Some mat
        \<and> snd (pa_list w ! k) mat = Inl e_search \<longrightarrow>
        search_pa_list w src = \<lparr>calls = [(k, mat)], outcome = Inl e_search\<rparr>)
   \<and> ((\<forall>(p, a) \<in> set pre. match p src' = None) \<and> match pat src' = Some mat' \<and> act mat' = Inl e
      \<longrightarrow> outcome (search_pa 0 (pre @ (pat, act) # post) src') = Inl e)
   \<and> (list_all ascii (ls @ [line])
        \<and> (\<forall>l \<in> set ls. \<exists>a. outcome (search_pa_list w (read_query l)) = Inr a)
        \<and> outcome (search_pa_list w (read_query line)) = Inl e_turn
        \<and> e_turn \<noteq> KeyboardInterrupt \<and> e_turn \<noteq> EOFError \<longrightarrow>
        query_loop w (map Line ls @ Line line # rest)
          = (Print (''Welcome to the Wikipedia chatbot!'' @ [CHR 0x0A])
               # concat (map (turn_output w) ls) @ [Print [], Prompt ''Your query? ''],
             Some e_turn))
   \<and> (list_all ascii (lsb @ [lineb])
        \<and> (\<forall>l \<in> set lsb. \<exists>a. outcome (search_pa_list w (read_query l)) = Inr a)
        \<and> outcome (search_pa_list w (read_query lineb)) = Inl e_end
        \<and> (e_end = KeyboardInterrupt \<or> e_end = EOFError) \<longrightarrow>
        query_loop w (map Line lsb @ Line lineb # restb)
          = (Print (''Welcome to the Wikipedia chatbot!'' @ [CHR 0x0A])
               # concat (map (turn_output w) lsb)
               @ [Print [], Prompt ''Your query? '',
                  Print (CHR 0x0A # ''So long!'' @ [CHR 0x0A])],
             None))"
proof (intro conjI impI)
  assume "re_search w Dotall_Ignorecase pattern infobox_text = None"
  then show "get_match w infobox_text pattern error_text = Inl (AttributeError error_text)"
    by (simp add: get_match_def)
next
  assume a: "first_infobox w (py_join '' '' matches) = Inl e_join"
  from join_actions_raise[OF a] show "birth_date w matches = Inl e_join" by simp
  from join_actions_raise[OF a] show "notable_work w matches = Inl e_join" by simp
next
  assume a: "first_infobox w m0 = Inl e_first"
  from first_word_actions_raise[OF a] show "polar_radius w (m0 # ms) = Inl e_first" by simp
  from first_word_actions_raise[OF a] show "painter_movement w (m0 # ms) = Inl e_first" by simp
  from first_word_actions_raise[OF a] show "artist_genre w (m0 # ms) = Inl e_first" by simp
  from first_word_actions_raise[OF a] show "university_motto w (m0 # ms) = Inl e_first" by simp
next
  assume "first_infobox w (py_join '' '' matches) = Inr text_join
        \<and> re_search w Dotall_Ignorecase Birth_re (clean_text text_join) = None"
  then show "birth_date w matches = Inl (AttributeError
          ''Page infobox has no birth information (at least none in xxxx-xx-xx format)'')"
    by (intro birth_date_no_fact[of w matches text_join]) simp_all
next
  assume "first_infobox w (py_join '' '' matches) = Inr text_join
        \<and> re_search w Dotall_Ignorecase Notable_work_re (clean_text text_join) = None"
  then show "notable_work w matches = Inl (AttributeError
          ''Page infobox has no notable work information'')"
    by (intro notable_work_no_fact[of w matches text_join]) simp_all
next
  assume "first_infobox w m0 = Inr text_first
        \<and> re_search w Dotall_Ignorecase Polar_radius_re (clean_text text_first) = None"
  then show "polar_radius w (m0 # ms) = Inl (AttributeError
          ''Page infobox has no polar radius information'')"
    by (intro polar_radius_no_fact[of w m0 text_first]) simp_all
next
  assume "first_infobox w m0 = Inr text_first
        \<and> re_search w Dotall_Ignorecase Genre_re (clean_text text_first) = None"
  then show "artist_genre w (m0 # ms) = Inl (AttributeError
          ''Page infobox has no genre information'')"
    by (intro artist_genre_no_fact[of w m0 text_first]) simp_all
next
  assume "first_infobox w m0 = Inr text_first
        \<and> re_search w Dotall_Ignorecase Motto_re (clean_text text_first) = None"
  then show "university_motto w (m0 # ms) = Inl (AttributeError
          ''Page infobox has no motto information'')"
    by (intro university_motto_no_fact[of w m0 text_first]) simp_all
next
  assume "first_infobox w m0 = Inr text_first
        \<and> re_search w No_flags Movement_re (clean_text text_first) = None"
  then show "painter_movement w (m0 # ms) =
          Inr [''Page infobox has no artistic movement information'']"
    by (intro painter_movement_no_fact[of w m0 text_first]) simp_all
next
  assume "k < length (pa_list w)
        \<and> (\<forall>(p, a) \<in> set (take k (pa_list w)). match p src = None)
        \<and> match (fst (pa_list w ! k)) src = Some mat
        \<and> snd (pa_list w ! k) mat = Inl e_search"
  then show "search_pa_list w src = \<lparr>calls = [(k, mat)], outcome = Inl e_search\<rparr>"
    by (intro search_pa_list_raises) simp_all
next
  assume "(\<forall>(p, a) \<in> set pre. match p src' = None) \<and> match pat src' = Some mat'
            \<and> act mat' = Inl e"
  then show "outcome (search_pa 0 (pre @ (pat, act) # post) src') = Inl e"
    by (simp add: search_pa_first)
next
  assume "list_all ascii (ls @ [line])
        \<and> (\<forall>l \<in> set ls. \<exists>a. outcome (search_pa_list w (read_query l)) = Inr a)
        \<and> outcome (search_pa_list w (read_query line)) = Inl e_turn
        \<and> e_turn \<noteq> KeyboardInterrupt \<and> e_turn \<noteq> EOFError"
  then show "query_loop w (map Line ls @ Line line # rest)
          = (Print (''Welcome to the Wikipedia chatbot!'' @ [CHR 0x0A])
               # concat (map (turn_output w) ls) @ [Print [], Prompt ''Your query? ''],
             Some e_turn)"
    by (intro query_loop_raises) simp_all
next
  assume "list_all ascii (lsb @ [lineb])
        \<and> (\<forall>l \<in> set lsb. \<exists>a. outcome (search_pa_list w (read_query l)) = Inr a)
        \<and> outcome (search_pa_list w (read_query lineb)) = Inl e_end
        \<and> (e_end = KeyboardInterrupt \<or> e_end = EOFError)"
  then show "query_loop w (map Line lsb @ Line lineb # restb)
          = (Print (''Welcome to the Wikipedia chatbot!'' @ [CHR 0x0A])
               # concat (map (turn_output w) lsb)
               @ [Print [], Prompt ''Your query? '',
                  Print (CHR 0x0A # ''So long!'' @ [CHR 0x0A])],
             None)"
    by (intro query_loop_caught) auto
qed

text \<open>
  Where no page has the fact, five actions raise and \<^verbatim>\<open>painter_movement\<close> answers with
  its error text; where no page is found, all six raise \<^verbatim>\<open>IndexError\<close>. In the session
  of the witness the first turn is answered, the second raises and the third line is
  never read; in the other session the second line is \<^verbatim>\<open>bye\<close>.
\<close>

theorem lookup_failure_propagates_witness:
  "first_infobox factless_world ''ada lovelace'' = Inr ''ada lovelace''
   \<and> re_search factless_world Dotall_Ignorecase Birth_re (clean_text ''ada lovelace'') = None
   \<and> get_match factless_world ''ada lovelace'' Birth_re ''no birth information''
       = Inl (AttributeError ''no birth information'')
   \<and> birth_date factless_world [''ada'', ''lovelace'']
       = Inl (AttributeError
           ''Page infobox has no birth information (at least none in xxxx-xx-xx format)'')
   \<and> notable_work factless_world [''ada'', ''lovelace'']
       = Inl (AttributeError ''Page infobox has no notable work information'')
   \<and> polar_radius factless_world [''picasso'', ''pablo'']
       = Inl (AttributeError ''Page infobox has no polar radius information'')
   \<and> artist_genre factless_world [''picasso'', ''pablo'']
       = Inl (AttributeError ''Page infobox has no genre information'')
   \<and> university_motto factless_world [''picasso'', ''pablo'']
       = Inl (AttributeError ''Page infobox has no motto information'')
   \<and> painter_movement factless_world [''picasso'', ''pablo'']
       = Inr [''Page infobox has no artistic movement information'']
   \<and> first_infobox pageless_world ''ada lovelace'' = Inl IndexError
   \<and> birth_date pageless_world [''ada'', ''lovelace''] = Inl IndexError
   \<and> notable_work pageless_world [''ada'', ''lovelace''] = Inl IndexError
   \<and> polar_radius pageless_world [''picasso'', ''pablo''] = Inl IndexError
   \<and> painter_movement pageless_world [''picasso'', ''pablo''] = Inl IndexError
   \<and> artist_genre pageless_world [''picasso'', ''pablo''] = Inl IndexError
   \<and> university_motto pageless_world [''picasso'', ''pablo''] = Inl IndexError
   \<and> search_pa_list factless_world [''what'', ''genre'', ''is'', ''picasso'', ''pablo'']
       = \<lparr>calls = [(3, [''picasso'', ''pablo''])],
          outcome = Inl (AttributeError ''Page infobox has no genre information'')\<rparr>
   \<and> outcome (search_pa 0
        [([''bye''], bye_action),
         ([''who'', ''is'', ''%''], \<lambda>m. Inl (LookupError ''Page has no infobox'')),
         ([''%''], \<lambda>m. Inr m)]
        [''who'', ''is'', ''ada'']) = Inl (LookupError ''Page has no infobox'')
   \<and> query_loop factless_world
        [Line ''What is the movement of Picasso?'', Line ''When was Ada Lovelace born?'',
         Line ''bye'']
       = ([Print (''Welcome to the Wikipedia chatbot!'' @ [CHR 0x0A]),
           Print [], Prompt ''Your query? '',
           Print ''Page infobox has no artistic movement information'',
           Print [], Prompt ''Your query? ''],
          Some (AttributeError
            ''Page infobox has no birth information (at least none in xxxx-xx-xx format)''))
   \<and> query_loop factless_world
        [Line ''What is the movement of Picasso?'', Line ''bye'',
         Line ''When was Ada Lovelace born?'']
       = ([Print (''Welcome to the Wikipedia chatbot!'' @ [CHR 0x0A]),
           Print [], Prompt ''Your query? '',
           Print ''Page infobox has no artistic movement information'',
           Print [], Prompt ''Your query? '',
           Print (CHR 0x0A # ''So long!'' @ [CHR 0x0A])],
          None)"
proof -
  have join: "py_join '' '' [''ada'', ''lovelace''] = ''ada lovelace''" by simp
  have f1: "first_infobox factless_world (py_join '' '' [''ada'', ''lovelace'']) = Inr ''ada lovelace''"
    by code_simp
  have f2: "first_infobox factless_world ''picasso'' = Inr ''picasso''"
    by code_simp
  have r: "re_search factless_world flags rx t = None" for flags rx t
    by (simp add: factless_world_def echo_world_def)
  have p1: "first_infobox pageless_world (py_join '' '' [''ada'', ''lovelace'']) = Inl IndexError"
    by code_simp
  have p2: "first_infobox pageless_world ''picasso'' = Inl IndexError"
    by code_simp
  have k: "(3::nat) < length (pa_list factless_world)"
    by (simp add: pa_list_patterns)
  have pre: "\<forall>(p, a) \<in> set (take 3 (pa_list factless_world)).
               match p [''what'', ''genre'', ''is'', ''picasso'', ''pablo''] = None"
    by (simp add: pa_list_patterns wildcard_def)
  have hit: "match (fst (pa_list factless_world ! 3))
               [''what'', ''genre'', ''is'', ''picasso'', ''pablo'']
             = Some [''picasso'', ''pablo'']"
    by (simp add: pa_list_patterns wildcard_def)
  have act: "snd (pa_list factless_world ! 3) = artist_genre factless_world"
    by (simp add: pa_list_patterns)
  have g1: "\<forall>(p, a) \<in> set [([''bye''], bye_action)]. match p [''who'', ''is'', ''ada''] = None"
    by (simp add: wildcard_def)
  have g2: "match [''who'', ''is'', ''%''] [''who'', ''is'', ''ada''] = Some [''ada'']"
    by (simp add: wildcard_def)
  have asc: "list_all ascii ([''What is the movement of Picasso?'']
               @ [''When was Ada Lovelace born?''])"
    by code_simp
  have ascb: "list_all ascii ([''What is the movement of Picasso?''] @ [''bye''])"
    by code_simp
  have mv: "outcome (search_pa_list factless_world
                (read_query ''What is the movement of Picasso?''))
              = Inr [''Page infobox has no artistic movement information'']"
    by code_simp
  have ans: "\<forall>l \<in> set [''What is the movement of Picasso?''].
               \<exists>a. outcome (search_pa_list factless_world (read_query l)) = Inr a"
    using mv by simp
  have out: "turn_output factless_world ''What is the movement of Picasso?''
              = [Print [], Prompt ''Your query? '',
                 Print ''Page infobox has no artistic movement information'']"
    using mv by (simp add: turn_output_def answers_of_def)
  have bd: "outcome (search_pa_list factless_world (read_query ''When was Ada Lovelace born?''))
              = Inl (AttributeError
            ''Page infobox has no birth information (at least none in xxxx-xx-xx format)'')"
    by code_simp
  have bye: "outcome (search_pa_list factless_world (read_query ''bye'')) = Inl KeyboardInterrupt"
    by (simp add: read_query_bye search_pa_list_bye)
  note inst = lookup_failure_propagates[where w = factless_world
      and pattern = Birth_re and infobox_text = "''ada lovelace''"
      and error_text = "''no birth information''"
      and matches = "[''ada'', ''lovelace'']" and text_join = "''ada lovelace''"
      and ?m0.0 = "''picasso''" and ms = "[''pablo'']" and text_first = "''picasso''"
      and k = 3 and src = "[''what'', ''genre'', ''is'', ''picasso'', ''pablo'']"
      and mat = "[''picasso'', ''pablo'']"
      and e_search = "AttributeError ''Page infobox has no genre information''"
      and pre = "[([''bye''], bye_action)]" and src' = "[''who'', ''is'', ''ada'']"
      and pat = "[''who'', ''is'', ''%'']" and mat' = "[''ada'']"
      and act = "\<lambda>m. Inl (LookupError ''Page has no infobox'')"
      and e = "LookupError ''Page has no infobox''" and post = "[([''%''], \<lambda>m. Inr m)]"
      and ls = "[''What is the movement of Picasso?'']"
      and line = "''When was Ada Lovelace born?''" and rest = "[Line ''bye'']"
      and e_turn = "AttributeError
            ''Page infobox has no birth information (at least none in xxxx-xx-xx format)''"
      and lsb = "[''What is the movement of Picasso?'']"
      and lineb = "''bye''" and restb = "[Line ''When was Ada Lovelace born?'']"
      and e_end = KeyboardInterrupt]
  note page = lookup_failure_propagates[where w = pageless_world
      and matches = "[''ada'', ''lovelace'']" and e_join = IndexError
      and ?m0.0 = "''picasso''" and ms = "[''pablo'']" and e_first = IndexError]
  have A: "birth_date factless_world [''ada'', ''lovelace'']
       = Inl (AttributeError
           ''Page infobox has no birth information (at least none in xxxx-xx-xx format)'')"
    using inst[THEN conjunct2, THEN conjunct2, THEN conjunct2, THEN conjunct1] f1 r by simp
  have B: "notable_work factless_world [''ada'', ''lovelace'']
       = Inl (AttributeError ''Page infobox has no notable work information'')"
    using inst[THEN conjunct2, THEN conjunct2, THEN conjunct2, THEN conjunct2, THEN conjunct1] f1 r by simp
  have C: "polar_radius factless_world [''picasso'', ''pablo'']
       = Inl (AttributeError ''Page infobox has no polar radius information'')"
    using inst[THEN conjunct2, THEN conjunct2, THEN conjunct2, THEN conjunct2, THEN conjunct2, THEN conjunct1] f2 r by simp
  have D: "artist_genre factless_world [''picasso'', ''pablo'']
       = Inl (AttributeError ''Page infobox has no genre information'')"
    using inst[THEN conjunct2, THEN conjunct2, THEN conjunct2, THEN conjunct2, THEN conjunct2, THEN conjunct2, THEN conjunct1] f2 r by simp
  have E: "university_motto factless_world [''picasso'', ''pablo'']
       = Inl (AttributeError ''Page infobox has no motto information'')"
    using inst[THEN conjunct2, THEN conjunct2, THEN conjunct2, THEN conjunct2, THEN conjunct2, THEN conjunct2, THEN conjunct2, THEN conjunct1] f2 r by simp
  have F: "painter_movement factless_world [''picasso'', ''pablo'']
       = Inr [''Page infobox has no artistic movement information'']"
    using inst[THEN conjunct2, THEN conjunct2, THEN conjunct2, THEN conjunct2, THEN conjunct2, THEN conjunct2, THEN conjunct2, THEN conjunct2, THEN conjunct1] f2 r by simp
  have G: "get_match factless_world ''ada lovelace'' Birth_re ''no birth information''
       = Inl (AttributeError ''no birth information'')"
    using inst[THEN conjunct1] r by simp
  have H: "birth_date pageless_world [''ada'', ''lovelace''] = Inl IndexError
     \<and> notable_work pageless_world [''ada'', ''lovelace''] = Inl IndexError"
    using page[THEN conjunct2, THEN conjunct1] p1 by simp
  have I: "polar_radius pageless_world [''picasso'', ''pablo''] = Inl IndexError
     \<and> painter_movement pageless_world [''picasso'', ''pablo''] = Inl IndexError
     \<and> artist_genre pageless_world [''picasso'', ''pablo''] = Inl IndexError
     \<and> university_motto pageless_world [''picasso'', ''pablo''] = Inl IndexError"
    using page[THEN conjunct2, THEN conjunct2, THEN conjunct1] p2 by simp
  have J: "search_pa_list factless_world [''what'', ''genre'', ''is'', ''picasso'', ''pablo'']
       = \<lparr>calls = [(3, [''picasso'', ''pablo''])],
          outcome = Inl (AttributeError ''Page infobox has no genre information'')\<rparr>"
    using inst[THEN conjunct2, THEN conjunct2, THEN conjunct2, THEN conjunct2, THEN conjunct2, THEN conjunct2, THEN conjunct2, THEN conjunct2, THEN conjunct2, THEN conjunct1] k pre hit D act by simp
  have K: "outcome (search_pa 0
        [([''bye''], bye_action),
         ([''who'', ''is'', ''%''], \<lambda>m. Inl (LookupError ''Page has no infobox'')),
         ([''%''], \<lambda>m. Inr m)]
        [''who'', ''is'', ''ada'']) = Inl (LookupError ''Page has no infobox'')"
    using inst[THEN conjunct2, THEN conjunct2, THEN conjunct2, THEN conjunct2, THEN conjunct2, THEN conjunct2, THEN conjunct2, THEN conjunct2, THEN conjunct2, THEN conjunct2, THEN conjunct1] g1 g2 by simp
  have L: "query_loop factless_world
        [Line ''What is the movement of Picasso?'', Line ''When was Ada Lovelace born?'',
         Line ''bye'']
       = ([Print (''Welcome to the Wikipedia chatbot!'' @ [CHR 0x0A]),
           Print [], Prompt ''Your query? '',
           Print ''Page infobox has no artistic movement information'',
           Print [], Prompt ''Your query? ''],
          Some (AttributeError
            ''Page infobox has no birth information (at least none in xxxx-xx-xx format)''))"
    using inst[THEN conjunct2, THEN conjunct2, THEN conjunct2, THEN conjunct2, THEN conjunct2, THEN conjunct2, THEN conjunct2, THEN conjunct2, THEN conjunct2, THEN conjunct2, THEN conjunct2, THEN conjunct1] asc ans bd out by simp
  have M: "query_loop factless_world
        [Line ''What is the movement of Picasso?'', Line ''bye'',
         Line ''When was Ada Lovelace born?'']
       = ([Print (''Welcome to the Wikipedia chatbot!'' @ [CHR 0x0A]),
           Print [], Prompt ''Your query? '',
           Print ''Page infobox has no artistic movement information'',
           Print [], Prompt ''Your query? '',
           Print (CHR 0x0A # ''So long!'' @ [CHR 0x0A])],
          None)"
    using inst[THEN conjunct2, THEN conjunct2, THEN conjunct2, THEN conjunct2, THEN conjunct2, THEN conjunct2, THEN conjunct2, THEN conjunct2, THEN conjunct2, THEN conjunct2, THEN conjunct2, THEN conjunct2] ascb ans bye out by simp
  from f1 p1 have f1': "first_infobox factless_world ''ada lovelace'' = Inr ''ada lovelace''"
    and p1': "first_infobox pageless_world ''ada lovelace'' = Inl IndexError"
    by (simp_all only: join)
  have r0: "re_search factless_world Dotall_Ignorecase Birth_re (clean_text ''ada lovelace'') = None"
    by (rule r)
  from f1' r0 G A B C D E F p1' H I J K L M show ?thesis by (intro conjI) simp_all
qed

text \<open>
  Claim C2 as stated fails: where no page has a birth date, the query for one raises
  \<^verbatim>\<open>AttributeError\<close> out of \<^verbatim>\<open>search_pa_list\<close> and out of the query loop, and the
  second line of the session is never read.
\<close>

theorem lookup_failure_counterexample:
  "outcome (search_pa_list factless_world (read_query ''When was Ada Lovelace born?''))
     = Inl (AttributeError
         ''Page infobox has no birth information (at least none in xxxx-xx-xx format)'')
   \<and> query_loop factless_world
        [Line ''When was Ada Lovelace born?'', Line ''What genre is Rihanna?'']
     = ([Print (''Welcome to the Wikipedia chatbot!'' @ [CHR 0x0A]), Print [],
         Prompt ''Your query? ''],
        Some (AttributeError
         ''Page infobox has no birth information (at least none in xxxx-xx-xx format)''))"
  by code_simp


end
